theory Spec2Isabelle
  imports Complex_Main
begin

section \<open>Numbers: float64 as exact reals with the IEEE special values\<close>

text \<open>
  The program computes on Python floats and numpy float64 arrays.  A value is modelled as
  an exact real number or one of the special values \<open>inf\<close>, \<open>-inf\<close>, \<open>nan\<close>.  Finite
  values carry no rounding and never overflow; zero is unsigned, and a zero divisor is
  taken as \<open>+0.0\<close>.  The special values follow IEEE 754 as numpy applies it: an invalid
  operation gives \<open>nan\<close> (with a warning, not an exception), and \<open>nan\<close> propagates.
\<close>

datatype fl = Fin real | PInf | NInf | NaN

fun np_neg :: "fl \<Rightarrow> fl" where
  "np_neg (Fin a) = Fin (- a)"
| "np_neg PInf = NInf"
| "np_neg NInf = PInf"
| "np_neg NaN = NaN"

fun np_add :: "fl \<Rightarrow> fl \<Rightarrow> fl" where
  "np_add (Fin a) (Fin b) = Fin (a + b)"
| "np_add (Fin a) PInf = PInf"
| "np_add (Fin a) NInf = NInf"
| "np_add PInf (Fin b) = PInf"
| "np_add PInf PInf = PInf"
| "np_add PInf NInf = NaN"
| "np_add NInf (Fin b) = NInf"
| "np_add NInf NInf = NInf"
| "np_add NInf PInf = NaN"
| "np_add NaN y = NaN"
| "np_add x NaN = NaN"

definition np_sub :: "fl \<Rightarrow> fl \<Rightarrow> fl" where
  "np_sub x y = np_add x (np_neg y)"

text \<open>The infinity carrying the sign of a real number; \<open>nan\<close> for zero.\<close>

definition inf_of_sign :: "real \<Rightarrow> fl" where
  "inf_of_sign a = (if a = 0 then NaN else if 0 < a then PInf else NInf)"

fun np_mul :: "fl \<Rightarrow> fl \<Rightarrow> fl" where
  "np_mul (Fin a) (Fin b) = Fin (a * b)"
| "np_mul (Fin a) PInf = inf_of_sign a"
| "np_mul (Fin a) NInf = inf_of_sign (- a)"
| "np_mul PInf (Fin b) = inf_of_sign b"
| "np_mul NInf (Fin b) = inf_of_sign (- b)"
| "np_mul PInf PInf = PInf"
| "np_mul PInf NInf = NInf"
| "np_mul NInf PInf = NInf"
| "np_mul NInf NInf = PInf"
| "np_mul NaN y = NaN"
| "np_mul x NaN = NaN"

text \<open>
  numpy's true division: dividing by zero is not an exception.  A nonzero finite value
  over zero is an infinity, zero over zero and infinity over infinity are \<open>nan\<close>.
\<close>

fun np_div :: "fl \<Rightarrow> fl \<Rightarrow> fl" where
  "np_div (Fin a) (Fin b) = (if b = 0 then inf_of_sign a else Fin (a / b))"
| "np_div (Fin a) PInf = Fin 0"
| "np_div (Fin a) NInf = Fin 0"
| "np_div PInf (Fin b) = (if 0 \<le> b then PInf else NInf)"
| "np_div NInf (Fin b) = (if 0 \<le> b then NInf else PInf)"
| "np_div PInf PInf = NaN"
| "np_div PInf NInf = NaN"
| "np_div NInf PInf = NaN"
| "np_div NInf NInf = NaN"
| "np_div NaN y = NaN"
| "np_div x NaN = NaN"

fun np_sqrt :: "fl \<Rightarrow> fl" where
  "np_sqrt (Fin a) = (if a < 0 then NaN else Fin (sqrt a))"
| "np_sqrt PInf = PInf"
| "np_sqrt NInf = NaN"
| "np_sqrt NaN = NaN"

text \<open>
  \<open>x ** y\<close> on floats is C's \<open>pow\<close>: anything to the power zero is one, one to any power
  is one, a negative finite base with a finite non-integer exponent is \<open>nan\<close>.
\<close>

fun np_power :: "fl \<Rightarrow> fl \<Rightarrow> fl" where
  "np_power x (Fin y) =
     (if y = 0 then Fin 1
      else case x of
        NaN \<Rightarrow> NaN
      | Fin a \<Rightarrow>
          (if 0 < a then Fin (a powr y)
           else if a = 0 then (if y < 0 then PInf else Fin 0)
           else if y \<in> \<int> then Fin ((if even \<lfloor>y\<rfloor> then 1 else - 1) * ((- a) powr y))
           else NaN)
      | PInf \<Rightarrow> (if y < 0 then Fin 0 else PInf)
      | NInf \<Rightarrow> (if y < 0 then Fin 0 else if y \<in> \<int> \<and> odd \<lfloor>y\<rfloor> then NInf else PInf))"
| "np_power x PInf =
     (case x of
        NaN \<Rightarrow> NaN
      | Fin a \<Rightarrow> (if \<bar>a\<bar> = 1 then Fin 1 else if \<bar>a\<bar> < 1 then Fin 0 else PInf)
      | PInf \<Rightarrow> PInf
      | NInf \<Rightarrow> PInf)"
| "np_power x NInf =
     (case x of
        NaN \<Rightarrow> NaN
      | Fin a \<Rightarrow> (if \<bar>a\<bar> = 1 then Fin 1 else if \<bar>a\<bar> < 1 then PInf else Fin 0)
      | PInf \<Rightarrow> Fin 0
      | NInf \<Rightarrow> Fin 0)"
| "np_power x NaN = (if x = Fin 1 then Fin 1 else NaN)"


fun fl_less :: "fl \<Rightarrow> fl \<Rightarrow> bool" where
  "fl_less NaN y = False"
| "fl_less x NaN = False"
| "fl_less (Fin a) (Fin b) = (a < b)"
| "fl_less (Fin a) PInf = True"
| "fl_less (Fin a) NInf = False"
| "fl_less NInf (Fin b) = True"
| "fl_less NInf PInf = True"
| "fl_less NInf NInf = False"
| "fl_less PInf y = False"

datatype pyerr = ZeroDivisionError | ValueError | TypeError | IndexError

text \<open>Python's own float division raises on a zero divisor.\<close>

definition py_div :: "fl \<Rightarrow> fl \<Rightarrow> pyerr + fl" where
  "py_div x y = (if y = Fin 0 then Inl ZeroDivisionError else Inr (np_div x y))"

section \<open>The library functions the program calls\<close>

text \<open>
  \<open>scipy.special.erfc\<close>, \<open>scipy.stats.norm.cdf\<close> and \<open>scipy.stats.norm.ppf\<close> are
  modelled by the mathematical functions they approximate.  The error function is its
  Maclaurin series \<open>erf x = 2/\<surd>\<pi> \<cdot> \<Sum>n. (-1)\<^sup>n x\<^bsup>2n+1\<^esup> / (n! (2n+1))\<close>, the standard
  normal distribution function is \<open>ndtr x = (1 + erf (x/\<surd>2)) / 2\<close>.
\<close>

definition erf_coeff :: "nat \<Rightarrow> real" where
  "erf_coeff n = (- 1) ^ n / (fact n * (2 * real n + 1))"

definition erf_series :: "real \<Rightarrow> real" where
  "erf_series y = (\<Sum>n. erf_coeff n * y ^ n)"

definition erf :: "real \<Rightarrow> real" where
  "erf x = 2 / sqrt pi * (\<Sum>n. (- 1) ^ n * x ^ (2 * n + 1) / (fact n * (2 * real n + 1)))"

definition ndtr :: "real \<Rightarrow> real" where
  "ndtr x = (1 + erf (x / sqrt 2)) / 2"

text \<open>\<open>scipy.special.erfc\<close>: \<open>1 - erf\<close>, with the limits at the infinities.\<close>

fun erfc :: "fl \<Rightarrow> fl" where
  "erfc (Fin a) = Fin (1 - erf a)"
| "erfc PInf = Fin 0"
| "erfc NInf = Fin 2"
| "erfc NaN = NaN"

text \<open>\<open>scipy.special.ndtr\<close> on the extended values.\<close>

fun ndtr_fl :: "fl \<Rightarrow> fl" where
  "ndtr_fl (Fin a) = Fin (ndtr a)"
| "ndtr_fl PInf = Fin 1"
| "ndtr_fl NInf = Fin 0"
| "ndtr_fl NaN = NaN"

text \<open>
  \<open>norm.cdf(x, loc, scale)\<close>: scipy standardises the argument to \<open>(x - loc) / scale\<close>; the
  result is \<open>nan\<close> unless \<open>scale > 0\<close> and the standardised argument is a number, one at
  \<open>inf\<close>, zero at \<open>-inf\<close>, and \<open>ndtr\<close> of it otherwise.
\<close>

definition norm_cdf :: "fl \<Rightarrow> fl \<Rightarrow> fl \<Rightarrow> fl" where
  "norm_cdf x loc scale =
     (let z = np_div (np_sub x loc) scale
      in if \<not> fl_less (Fin 0) scale then NaN else ndtr_fl z)"

text \<open>
  \<open>norm.ppf(p)\<close>: the quantile, that is the argument at which \<open>ndtr\<close> takes the value \<open>p\<close>,
  for \<open>0 < p < 1\<close>; \<open>-inf\<close> at \<open>0\<close>, \<open>inf\<close> at \<open>1\<close>, \<open>nan\<close> elsewhere.
\<close>

fun norm_ppf :: "fl \<Rightarrow> fl" where
  "norm_ppf (Fin p) =
     (if p = 0 then NInf
      else if p = 1 then PInf
      else if 0 < p \<and> p < 1 then Fin (THE x. ndtr x = p)
      else NaN)"
| "norm_ppf PInf = NaN"
| "norm_ppf NInf = NaN"
| "norm_ppf NaN = NaN"

section \<open>The ideal observer\<close>

text \<open>
  \<open>IdealObs._snrenv_to_pc\<close>.  \<open>snrenv\<close> is a one-dimensional float array, the other
  arguments are scalars; \<open>1.0 / m\<close> is Python's division and raises on \<open>m = 0\<close>, the other
  operations involve a numpy value (\<open>norm.ppf\<close> returns a numpy scalar) and do not
  raise.  The function is called with all five arguments, as every call in the source
  does.  The source's \<open>Un\<close> is written \<open>U_n\<close> here.
\<close>

definition snrenv_to_pc' :: "fl list \<Rightarrow> fl \<Rightarrow> fl \<Rightarrow> fl \<Rightarrow> fl \<Rightarrow> pyerr + fl list" where
  "snrenv_to_pc' snrenv k q sigma_s m =
     (case py_div (Fin 1) m of
        Inl e \<Rightarrow> Inl e
      | Inr r \<Rightarrow>
          (let U_n = norm_ppf (np_sub (Fin 1) r);
               sn = np_div (Fin 1.28255) U_n;
               un = np_add U_n (np_div (Fin 0.577) U_n);
               dp = map (\<lambda>x. np_mul k (np_power x q)) snrenv
           in Inr (map (\<lambda>d. np_mul
                    (norm_cdf d un
                       (np_sqrt (np_add (np_power sigma_s (Fin 2)) (np_power sn (Fin 2)))))
                    (Fin 100)) dp)))"

record IdealObs =
  self_k :: fl
  self_q :: fl
  self_sigma_s :: fl
  self_m :: fl

text \<open>\<open>IdealObs.__init__\<close>: an omitted argument takes its default; nothing is checked.\<close>

definition init :: "fl option \<Rightarrow> fl option \<Rightarrow> fl option \<Rightarrow> fl option \<Rightarrow> pyerr + IdealObs" where
  "init k q sigma_s m =
     Inr \<lparr> self_k = (case k of None \<Rightarrow> Fin (sqrt 1.2) | Some v \<Rightarrow> v),
           self_q = (case q of None \<Rightarrow> Fin 0.5 | Some v \<Rightarrow> v),
           self_sigma_s = (case sigma_s of None \<Rightarrow> Fin 0.6 | Some v \<Rightarrow> v),
           self_m = (case m of None \<Rightarrow> Fin 8000 | Some v \<Rightarrow> v) \<rparr>"

text \<open>The object \<open>IdealObs()\<close>, built with every default.\<close>

definition default_obs :: IdealObs where
  "default_obs =
     \<lparr> self_k = Fin (sqrt 1.2), self_q = Fin 0.5, self_sigma_s = Fin 0.6, self_m = Fin 8000 \<rparr>"

definition get_params :: "IdealObs \<Rightarrow> (string \<rightharpoonup> fl)" where
  "get_params self =
     [''k'' \<mapsto> self_k self, ''q'' \<mapsto> self_q self,
      ''sigma_s'' \<mapsto> self_sigma_s self, ''m'' \<mapsto> self_m self]"

definition snrenv_to_pc :: "IdealObs \<Rightarrow> fl list \<Rightarrow> pyerr + fl list" where
  "snrenv_to_pc self snrenv =
     snrenv_to_pc' snrenv (self_k self) (self_q self) (self_sigma_s self) (self_m self)"

subsection \<open>Fitting\<close>

text \<open>
  Python's truth test of an optional float argument: \<open>None\<close> and zero are false, every
  other value (\<open>nan\<close> included) is true.  The result is the value when it is true.
\<close>

definition truthy :: "fl option \<Rightarrow> fl option" where
  "truthy v = (case v of None \<Rightarrow> None | Some x \<Rightarrow> if x = Fin 0 then None else Some x)"

text \<open>
  \<open>array - array\<close> for one-dimensional arrays: numpy stretches an array of length one to
  the length of the other, and raises \<open>ValueError\<close> for other unequal lengths.
\<close>

definition broadcast_sub :: "fl list \<Rightarrow> fl list \<Rightarrow> pyerr + fl list" where
  "broadcast_sub xs ys =
     (if length xs = length ys then Inr (map2 np_sub xs ys)
      else if length ys = 1 then Inr (map (\<lambda>x. np_sub x (hd ys)) xs)
      else if length xs = 1 then Inr (map (\<lambda>y. np_sub (hd xs) y) ys)
      else Inl ValueError)"

type_synonym residual_fn = "fl list \<Rightarrow> pyerr + fl list"

text \<open>
  The optimiser is a parameter of the model: given the residual function and the start
  vector it raises or returns the solution vector and MINPACK's status flag \<open>ier\<close>
  (1 to 4: converged).
\<close>

type_synonym optimizer = "residual_fn \<Rightarrow> fl list \<Rightarrow> pyerr + fl list \<times> int"

text \<open>
  \<open>scipy.optimize.leastsq\<close> evaluates the residual function once at the start vector
  before it hands over to MINPACK, to learn the shape of the residual; an exception
  raised there leaves \<open>leastsq\<close>, and fewer residuals than parameters is a \<open>TypeError\<close>.
\<close>

definition leastsq :: "optimizer \<Rightarrow> residual_fn \<Rightarrow> fl list \<Rightarrow> pyerr + fl list \<times> int" where
  "leastsq minpack func x0 =
     (case func x0 of
        Inl e \<Rightarrow> Inl e
      | Inr r \<Rightarrow> if length r < length x0 then Inl TypeError else minpack func x0)"

text \<open>Lines 100 to 103 of \<open>fit_obs\<close>: the \<open>m\<close> of the fit, and the object afterwards.\<close>

definition fit_m :: "IdealObs \<Rightarrow> fl option \<Rightarrow> fl" where
  "fit_m self m = (case truthy m of None \<Rightarrow> self_m self | Some v \<Rightarrow> v)"

definition fit_self :: "IdealObs \<Rightarrow> fl option \<Rightarrow> IdealObs" where
  "fit_self self m = (case truthy m of None \<Rightarrow> self | Some v \<Rightarrow> self\<lparr>self_m := v\<rparr>)"

text \<open>Lines 105 to 118: the residual function \<open>errfc\<close> and the start vector \<open>p0\<close>.\<close>

definition fit_errfc :: "fl list \<Rightarrow> fl list \<Rightarrow> fl option \<Rightarrow> fl \<Rightarrow> residual_fn" where
  "fit_errfc snrenv data sigma_s m p =
     (case truthy sigma_s of
        Some s \<Rightarrow>
          (if length p < 2 then Inl IndexError
           else case snrenv_to_pc' snrenv (p ! 0) (p ! 1) s m of
                  Inl e \<Rightarrow> Inl e
                | Inr pc \<Rightarrow> broadcast_sub pc data)
      | None \<Rightarrow>
          (if length p < 3 then Inl IndexError
           else case snrenv_to_pc' snrenv (p ! 0) (p ! 1) (p ! 2) m of
                  Inl e \<Rightarrow> Inl e
                | Inr pc \<Rightarrow> broadcast_sub pc data))"

definition fit_p0 :: "IdealObs \<Rightarrow> fl option \<Rightarrow> fl list" where
  "fit_p0 self sigma_s =
     (case truthy sigma_s of
        Some s \<Rightarrow> [self_k self, self_q self]
      | None \<Rightarrow> [self_k self, self_q self, self_sigma_s self])"

text \<open>
  Lines 122 to 127: the solution vector is unpacked into the object.  Unpacking a vector
  of the wrong length raises \<open>ValueError\<close> before anything is assigned.
\<close>

definition fit_store :: "IdealObs \<Rightarrow> fl option \<Rightarrow> fl list \<Rightarrow> IdealObs \<times> pyerr option" where
  "fit_store self sigma_s res =
     (case truthy sigma_s of
        Some s \<Rightarrow>
          (case res of
             [a, b] \<Rightarrow> (self\<lparr>self_k := a, self_q := b, self_sigma_s := s\<rparr>, None)
           | _ \<Rightarrow> (self, Some ValueError))
      | None \<Rightarrow>
          (case res of
             [a, b, c] \<Rightarrow> (self\<lparr>self_k := a, self_q := b, self_sigma_s := c\<rparr>, None)
           | _ \<Rightarrow> (self, Some ValueError)))"

text \<open>
  \<open>IdealObs.fit_obs\<close>.  The result is the object as the call leaves it and the exception
  raised, if any; on a normal return the object itself is returned.
\<close>

definition fit_obs ::
  "optimizer \<Rightarrow> IdealObs \<Rightarrow> fl list \<Rightarrow> fl list \<Rightarrow> fl option \<Rightarrow> fl option
     \<Rightarrow> IdealObs \<times> pyerr option" where
  "fit_obs minpack self snrenv pcdata sigma_s m =
     (let m' = fit_m self m;
          self' = fit_self self m;
          errfc = fit_errfc snrenv pcdata sigma_s m';
          p0 = fit_p0 self' sigma_s
      in case leastsq minpack errfc p0 of
           Inl e \<Rightarrow> (self', Some e)
         | Inr (res, ier) \<Rightarrow> fit_store self' sigma_s res)"

section \<open>The psychometric function\<close>

definition psy_fn :: "fl list \<Rightarrow> fl \<Rightarrow> fl \<Rightarrow> fl list" where
  "psy_fn x mu sigma =
     map (\<lambda>xi. np_div
            (np_mul (Fin 100)
               (erfc (np_div (np_neg (np_sub xi mu)) (np_mul (Fin (sqrt 2)) sigma))))
            (Fin 2)) x"

section \<open>The transform as the specification words it\<close>


section \<open>Properties of the error function\<close>

text \<open>
  The series converges everywhere, and termwise differentiation gives the derivative
  \<open>2/\<surd>\<pi> \<cdot> exp (- x\<^sup>2)\<close>: the error function is odd, continuous and strictly increasing.
\<close>

lemma summable_erf_series: "summable (\<lambda>n. erf_coeff n * y ^ n)"
proof (rule summable_comparison_test [OF _ summable_norm_exp [of y]], intro exI allI impI)
  fix n :: nat
  have "\<bar>erf_coeff n\<bar> = 1 / (fact n * (2 * real n + 1))"
    by (simp add: erf_coeff_def power_abs)
  also have "\<dots> \<le> 1 / fact n"
    by (rule frac_le) (simp_all add: mult_le_cancel_left1)
  finally have "\<bar>erf_coeff n\<bar> * \<bar>y\<bar> ^ n \<le> 1 / fact n * \<bar>y\<bar> ^ n"
    by (intro mult_right_mono) simp_all
  then show "norm (erf_coeff n * y ^ n) \<le> norm (y ^ n /\<^sub>R fact n)"
    by (simp add: abs_mult power_abs field_simps)
qed

lemma DERIV_erf_series:
  "DERIV erf_series y :> (\<Sum>n. diffs erf_coeff n * y ^ n)"
  unfolding erf_series_def
  by (rule termdiffs_strong_converges_everywhere) (rule summable_erf_series)

lemma erf_series_ode: "erf_series y + 2 * y * (\<Sum>n. diffs erf_coeff n * y ^ n) = exp (- y)"
proof -
  have sd: "summable (\<lambda>n. diffs erf_coeff n * y ^ n)"
    by (rule termdiff_converges_all) (rule summable_erf_series)
  have "(\<lambda>n. real n * erf_coeff n * y ^ (n - Suc 0)) sums (\<Sum>n. diffs erf_coeff n * y ^ n)"
    by (rule diffs_equiv [OF sd])
  then have "(\<lambda>n. (2 * y) * (real n * erf_coeff n * y ^ (n - Suc 0))) sums
      (2 * y * (\<Sum>n. diffs erf_coeff n * y ^ n))"
    by (rule sums_mult)
  moreover have "(2 * y) * (real n * erf_coeff n * y ^ (n - Suc 0)) = 2 * real n * erf_coeff n * y ^ n" for n
    by (cases n) simp_all
  ultimately have s2: "(\<lambda>n. 2 * real n * erf_coeff n * y ^ n) sums
      (2 * y * (\<Sum>n. diffs erf_coeff n * y ^ n))"
    by simp
  have s1: "(\<lambda>n. erf_coeff n * y ^ n) sums erf_series y"
    unfolding erf_series_def by (rule summable_sums [OF summable_erf_series])
  have "(\<lambda>n. erf_coeff n * y ^ n + 2 * real n * erf_coeff n * y ^ n) sums
      (erf_series y + 2 * y * (\<Sum>n. diffs erf_coeff n * y ^ n))"
    by (rule sums_add [OF s1 s2])
  moreover have "erf_coeff n * y ^ n + 2 * real n * erf_coeff n * y ^ n = (- y) ^ n /\<^sub>R fact n" for n
  proof -
    have "0 < 2 * real n + 1"
      by (simp add: add_nonneg_pos)
    then have "erf_coeff n * (1 + 2 * real n) = (- 1) ^ n / fact n"
      by (simp add: erf_coeff_def add.commute)
    moreover have "erf_coeff n * y ^ n + 2 * real n * erf_coeff n * y ^ n =
        erf_coeff n * (1 + 2 * real n) * y ^ n"
      by (simp add: algebra_simps)
    ultimately have "erf_coeff n * y ^ n + 2 * real n * erf_coeff n * y ^ n = (- 1) ^ n / fact n * y ^ n"
      by simp
    also have "\<dots> = (- y) ^ n /\<^sub>R fact n"
      by (simp add: power_minus [of y] field_simps)
    finally show ?thesis .
  qed
  ultimately have "(\<lambda>n. (- y) ^ n /\<^sub>R fact n) sums
      (erf_series y + 2 * y * (\<Sum>n. diffs erf_coeff n * y ^ n))"
    by simp
  then show ?thesis
    using exp_converges [of "- y"] sums_unique2 by blast
qed

lemma erf_eq: "erf x = 2 / sqrt pi * (x * erf_series (x\<^sup>2))"
proof -
  have "(\<lambda>n. x * (erf_coeff n * (x\<^sup>2) ^ n)) sums (x * erf_series (x\<^sup>2))"
    unfolding erf_series_def by (rule sums_mult [OF summable_sums [OF summable_erf_series]])
  moreover have "x * (erf_coeff n * (x\<^sup>2) ^ n) = (- 1) ^ n * x ^ (2 * n + 1) / (fact n * (2 * real n + 1))" for n
    by (simp add: erf_coeff_def power_mult [symmetric] field_simps)
  ultimately have "(\<lambda>n. (- 1) ^ n * x ^ (2 * n + 1) / (fact n * (2 * real n + 1))) sums (x * erf_series (x\<^sup>2))"
    by simp
  then show ?thesis
    unfolding erf_def by (simp add: sums_unique [symmetric])
qed

lemma DERIV_erf: "DERIV erf x :> 2 / sqrt pi * exp (- (x\<^sup>2))"
proof -
  have eq: "erf = (\<lambda>x. 2 / sqrt pi * (x * erf_series (x\<^sup>2)))"
    by (rule ext) (rule erf_eq)
  have "DERIV (\<lambda>x. 2 / sqrt pi * (x * erf_series (x\<^sup>2))) x :>
      2 / sqrt pi * (erf_series (x\<^sup>2) + 2 * (x\<^sup>2) * (\<Sum>n. diffs erf_coeff n * (x\<^sup>2) ^ n))"
    by (rule derivative_eq_intros DERIV_chain2 [OF DERIV_erf_series] refl)+
       (simp add: algebra_simps power2_eq_square)
  then show ?thesis
    by (simp add: eq erf_series_ode)
qed

lemma erf_0: "erf 0 = 0"
  by (simp add: erf_eq)

lemma erf_minus: "erf (- x) = - erf x"
  by (simp add: erf_eq)

lemma erf_strict_mono: "x < y \<Longrightarrow> erf x < erf y"
proof (rule DERIV_pos_imp_increasing [of x y erf])
  fix t
  show "\<exists>d. DERIV erf t :> d \<and> 0 < d"
    by (intro exI conjI, rule DERIV_erf) simp
qed

lemma erf_inj: "erf x = erf y \<longleftrightarrow> x = y"
  by (metis erf_strict_mono linorder_neqE_linordered_idom less_irrefl)

lemma erf_mono: "x \<le> y \<Longrightarrow> erf x \<le> erf y"
  by (metis erf_strict_mono le_less)



lemma ndtr_0: "ndtr 0 = 1 / 2"
  by (simp add: ndtr_def erf_0)

lemma ndtr_strict_mono: "x < y \<Longrightarrow> ndtr x < ndtr y"
  by (simp add: ndtr_def erf_strict_mono divide_strict_right_mono)


lemma ndtr_inj: "ndtr x = ndtr y \<longleftrightarrow> x = y"
  by (metis ndtr_strict_mono linorder_neqE_linordered_idom less_irrefl)

lemma ndtr_quantile: "ndtr u = p \<Longrightarrow> (THE x. ndtr x = p) = u"
  by (rule the_equality) (auto simp: ndtr_inj)




text \<open>Where the quantile at \<open>1 - 1/m\<close> exists, it is zero exactly for \<open>m = 2\<close>.\<close>

lemma norm_ppf_zero_iff:
  assumes "1 < m" "ndtr u = 1 - 1 / m"
  shows "norm_ppf (Fin (1 - 1 / m)) = Fin 0 \<longleftrightarrow> m = 2"
proof -
  have "0 < 1 - 1 / m" "1 - 1 / m < 1"
    using assms(1) by simp_all
  then have "norm_ppf (Fin (1 - 1 / m)) = Fin u"
    using ndtr_quantile [OF assms(2)] by simp
  moreover have "u = 0 \<longleftrightarrow> ndtr u = 1 / 2"
    using ndtr_inj [of u 0] by (simp add: ndtr_0)
  moreover have "1 - 1 / m = 1 / 2 \<longleftrightarrow> m = 2"
    using assms(1) by (auto simp: field_simps)
  ultimately show ?thesis
    using assms(2) by simp
qed

section \<open>Arithmetic on finite values\<close>

lemma np_sub_Fin [simp]: "np_sub (Fin a) (Fin b) = Fin (a - b)"
  by (simp add: np_sub_def)

lemma np_sub_NaN [simp]: "np_sub NaN y = NaN" "np_sub x NaN = NaN"
  by (simp_all add: np_sub_def) (cases x, simp_all)

lemma np_mul_NaN_right [simp]: "np_mul x NaN = NaN"
  by (cases x) simp_all

lemma np_div_NaN_right [simp]: "np_div x NaN = NaN"
  by (cases x) simp_all

lemma np_add_NaN_right [simp]: "np_add x NaN = NaN"
  by (cases x) simp_all

lemma np_power_pos: "0 < a \<Longrightarrow> np_power (Fin a) (Fin y) = Fin (a powr y)"
  by simp




lemma norm_cdf_NaN [simp]: "norm_cdf NaN loc scale = NaN"
  by (simp add: norm_cdf_def)






section \<open>The steps of the fit\<close>

lemma truthy_zero: "truthy (Some (Fin 0)) = None"
  by (simp add: truthy_def)

lemma truthy_None: "truthy None = None"
  by (simp add: truthy_def)

lemma truthy_Some: "v \<noteq> Fin 0 \<Longrightarrow> truthy (Some v) = Some v"
  by (simp add: truthy_def)

lemma fin_8000_nz: "Fin 8000 \<noteq> Fin 0"
  by simp

lemma snrenv_to_pc'_zero: "snrenv_to_pc' xs k q s (Fin 0) = Inl ZeroDivisionError"
  by (simp add: snrenv_to_pc'_def py_div_def)

lemma snrenv_to_pc'_Inr:
  assumes "m \<noteq> Fin 0"
  shows "\<exists>ys. snrenv_to_pc' xs k q s m = Inr ys \<and> length ys = length xs"
  using assms by (simp add: snrenv_to_pc'_def py_div_def Let_def)


lemma length_fit_p0: "length (fit_p0 self sigma_s) = (case truthy sigma_s of None \<Rightarrow> 3 | Some s \<Rightarrow> 2)"
  by (simp add: fit_p0_def split: option.splits)

lemma fit_errfc_p0:
  "fit_errfc snrenv pcdata sigma_s m (fit_p0 self sigma_s) =
     (case snrenv_to_pc' snrenv (self_k self) (self_q self)
             (case truthy sigma_s of None \<Rightarrow> self_sigma_s self | Some s \<Rightarrow> s) m of
        Inl e \<Rightarrow> Inl e
      | Inr pc \<Rightarrow> broadcast_sub pc pcdata)"
  by (simp add: fit_errfc_def fit_p0_def split: option.splits)


lemma self_m_fit_self: "self_m (fit_self self m) = fit_m self m"
  by (simp add: fit_self_def fit_m_def split: option.splits)


lemma self_m_fit_store: "self_m (fst (fit_store self sigma_s res)) = self_m self"
  by (simp add: fit_store_def split: option.splits list.splits)

lemma self_m_fit_obs: "self_m (fst (fit_obs minpack self snrenv pcdata sigma_s m)) = fit_m self m"
  by (simp add: fit_obs_def Let_def self_m_fit_self self_m_fit_store split: sum.splits prod.splits)

lemma fit_obs_Inr:
  assumes "leastsq minpack (fit_errfc snrenv pcdata sigma_s (fit_m self m))
             (fit_p0 (fit_self self m) sigma_s) = Inr (res, ier)"
  shows "fit_obs minpack self snrenv pcdata sigma_s m = fit_store (fit_self self m) sigma_s res"
  using assms by (simp add: fit_obs_def)


lemma leastsq_example:
  "leastsq (\<lambda>func x0. Inr (res, ier))
     (fit_errfc [Fin 1, Fin 2, Fin 3] [Fin 10, Fin 20, Fin 30] sigma_s (Fin 8000))
     (fit_p0 default_obs sigma_s) = Inr (res, ier)"
proof -
  obtain ys where ys: "snrenv_to_pc' [Fin 1, Fin 2, Fin 3] (self_k default_obs) (self_q default_obs)
      (case truthy sigma_s of None \<Rightarrow> self_sigma_s default_obs | Some s \<Rightarrow> s) (Fin 8000) = Inr ys"
      "length ys = length [Fin 1, Fin 2, Fin 3]"
    using snrenv_to_pc'_Inr [OF fin_8000_nz, of "[Fin 1, Fin 2, Fin 3]" "self_k default_obs"
        "self_q default_obs" "case truthy sigma_s of None \<Rightarrow> self_sigma_s default_obs | Some s \<Rightarrow> s"]
    by blast
  show ?thesis
    by (simp add: leastsq_def fit_errfc_p0 ys broadcast_sub_def length_fit_p0 split: option.splits)
qed

lemma leastsq_first_evaluation:
  "leastsq minpack
     (fit_errfc [Fin 1, Fin 2, Fin 3] [Fin 10, Fin 20, Fin 30] sigma_s (Fin 8000))
     (fit_p0 default_obs sigma_s) =
   minpack (fit_errfc [Fin 1, Fin 2, Fin 3] [Fin 10, Fin 20, Fin 30] sigma_s (Fin 8000))
     (fit_p0 default_obs sigma_s)"
proof -
  obtain ys where ys: "snrenv_to_pc' [Fin 1, Fin 2, Fin 3] (self_k default_obs) (self_q default_obs)
      (case truthy sigma_s of None \<Rightarrow> self_sigma_s default_obs | Some s \<Rightarrow> s) (Fin 8000) = Inr ys"
      "length ys = length [Fin 1, Fin 2, Fin 3]"
    using snrenv_to_pc'_Inr [OF fin_8000_nz, of "[Fin 1, Fin 2, Fin 3]" "self_k default_obs"
        "self_q default_obs" "case truthy sigma_s of None \<Rightarrow> self_sigma_s default_obs | Some s \<Rightarrow> s"]
    by blast
  show ?thesis
    by (simp add: leastsq_def fit_errfc_p0 ys broadcast_sub_def length_fit_p0 split: option.splits)
qed

lemma fit_default_None:
  "fit_m default_obs None = Fin 8000" "fit_self default_obs None = default_obs"
  by (simp_all add: fit_m_def fit_self_def truthy_None default_obs_def)

section \<open>The transform on finite values\<close>




section \<open>The psychometric function and the normal distribution\<close>

lemma erfc_ndtr: "s \<noteq> 0 \<Longrightarrow> 100 * (1 - erf (- d / (sqrt 2 * s))) / 2 = 100 * ndtr (d / s)"
proof -
  assume "s \<noteq> 0"
  have "- d / (sqrt 2 * s) = - (d / s / sqrt 2)"
    by (simp add: field_simps)
  then have "erf (- d / (sqrt 2 * s)) = - erf (d / s / sqrt 2)"
    by (simp only: erf_minus)
  then show ?thesis
    by (simp add: ndtr_def)
qed

lemma psy_fn_elem:
  assumes "sigma \<noteq> Fin 0"
  shows "np_div (np_mul (Fin 100)
           (erfc (np_div (np_neg (np_sub xi mu)) (np_mul (Fin (sqrt 2)) sigma)))) (Fin 2)
       = np_mul (Fin 100) (ndtr_fl (np_div (np_sub xi mu) sigma))"
proof (cases "np_sub xi mu")
  case (Fin d)
  show ?thesis
  proof (cases sigma)
    case (Fin s)
    with assms have "s \<noteq> 0" by simp
    then show ?thesis
      using erfc_ndtr [of s d] by (simp add: \<open>np_sub xi mu = Fin d\<close> Fin)
  qed (simp_all add: \<open>np_sub xi mu = Fin d\<close> inf_of_sign_def erf_0 ndtr_0)
next
  case PInf
  then show ?thesis
    using assms by (cases sigma) (simp_all add: inf_of_sign_def zero_le_mult_iff)
next
  case NInf
  then show ?thesis
    using assms by (cases sigma) (simp_all add: inf_of_sign_def zero_le_mult_iff)
next
  case NaN
  then show ?thesis
    by simp
qed

section \<open>The statistical transform\<close>




section \<open>A fixed \<open>sigma_s\<close>\<close>

text \<open>
  C2 fails on the code at \<open>sigma_s = 0.0\<close>: the start vector of the default object is
  \<open>[k, q, sigma_s]\<close>, three free parameters, and when the optimiser returns
  \<open>[1, 0.5, 0.7]\<close> the object's \<open>sigma_s\<close> is \<open>0.7\<close>, not the \<open>0.0\<close> that was passed.
\<close>

theorem fit_obs_zero_sigma_s_not_fixed:
  "fit_p0 default_obs (Some (Fin 0)) = [Fin (sqrt 1.2), Fin 0.5, Fin 0.6]
   \<and> fit_obs (\<lambda>func x0. Inr ([Fin 1, Fin 0.5, Fin 0.7], 1)) default_obs
        [Fin 1, Fin 2, Fin 3] [Fin 10, Fin 20, Fin 30] (Some (Fin 0)) None
      = (default_obs\<lparr>self_k := Fin 1, self_q := Fin 0.5, self_sigma_s := Fin 0.7\<rparr>, None)"
proof -
  have "fit_p0 default_obs (Some (Fin 0)) = [Fin (sqrt 1.2), Fin 0.5, Fin 0.6]"
    by (simp add: fit_p0_def truthy_zero default_obs_def)
  moreover have "fit_obs (\<lambda>func x0. Inr ([Fin 1, Fin 0.5, Fin 0.7], 1)) default_obs
        [Fin 1, Fin 2, Fin 3] [Fin 10, Fin 20, Fin 30] (Some (Fin 0)) None
      = (default_obs\<lparr>self_k := Fin 1, self_q := Fin 0.5, self_sigma_s := Fin 0.7\<rparr>, None)"
    by (simp add: fit_obs_def fit_default_None leastsq_first_evaluation fit_store_def truthy_zero)
  ultimately show ?thesis by simp
qed

section \<open>The result of the optimiser\<close>

text \<open>
  C3 (amended).  \<open>fit_obs\<close> keeps only the solution vector of \<open>leastsq\<close> and drops the
  status flag.  Whenever \<open>leastsq\<close> returns, the vector is stored in the object, whatever the
  flag says and whether or not the values are finite, and the call returns normally.
\<close>

theorem fit_obs_stores_raw_result:
  assumes "leastsq minpack (fit_errfc snrenv pcdata sigma_s (fit_m self m))
             (fit_p0 (fit_self self m) sigma_s) = Inr (res, ier)"
  shows "(truthy sigma_s = None \<and> res = [a, b, c] \<longrightarrow>
            fit_obs minpack self snrenv pcdata sigma_s m =
              ((fit_self self m)\<lparr>self_k := a, self_q := b, self_sigma_s := c\<rparr>, None))
       \<and> (truthy sigma_s = Some s \<and> res = [a, b] \<longrightarrow>
            fit_obs minpack self snrenv pcdata sigma_s m =
              ((fit_self self m)\<lparr>self_k := a, self_q := b, self_sigma_s := s\<rparr>, None))"
  by (simp add: fit_obs_Inr [OF assms] fit_store_def)

theorem fit_obs_stores_raw_result_witness:
  "fit_obs (\<lambda>func x0. Inr ([Fin 1, Fin 2, Fin 3], 2)) default_obs
      [Fin 1, Fin 2, Fin 3] [Fin 10, Fin 20, Fin 30] None None
    = (default_obs\<lparr>self_k := Fin 1, self_q := Fin 2, self_sigma_s := Fin 3\<rparr>, None)"
  using fit_obs_stores_raw_result [of "\<lambda>func x0. Inr ([Fin 1, Fin 2, Fin 3], 2)"
      "[Fin 1, Fin 2, Fin 3]" "[Fin 10, Fin 20, Fin 30]" None default_obs None
      "[Fin 1, Fin 2, Fin 3]" 2 "Fin 1" "Fin 2" "Fin 3"]
    leastsq_example [of "[Fin 1, Fin 2, Fin 3]" 2 None]
  by (simp add: fit_m_def fit_self_def truthy_None default_obs_def)

text \<open>
  C3 as stated fails: an optimiser run that ends with \<open>ier = 5\<close> (not converged) and a
  solution vector of \<open>nan\<close>s is stored as it is, and no exception is raised.
\<close>

theorem fit_obs_no_convergence_check_counterexample:
  "fit_obs (\<lambda>func x0. Inr ([NaN, NaN, NaN], 5)) default_obs
      [Fin 1, Fin 2, Fin 3] [Fin 10, Fin 20, Fin 30] None None
    = (default_obs\<lparr>self_k := NaN, self_q := NaN, self_sigma_s := NaN\<rparr>, None)"
proof -
  have "fit_m default_obs None = Fin 8000" "fit_self default_obs None = default_obs"
    by (simp_all add: fit_m_def fit_self_def truthy_None default_obs_def)
  then show ?thesis
    by (simp add: fit_obs_def leastsq_example fit_store_def truthy_None)
qed

section \<open>Construction\<close>

text \<open>
  C4 (amended).  Construction checks nothing: for all arguments it succeeds and stores
  each given value, or the default for an omitted one (\<open>k = sqrt 1.2\<close>, \<open>q = 0.5\<close>,
  \<open>sigma_s = 0.6\<close>, \<open>m = 8000\<close>).  The fit checks nothing either: a supplied nonzero
  \<open>m\<close>, whatever its value, is stored in the object.
\<close>

theorem init_no_validation:
  "(\<exists>obs. init k q sigma_s m = Inr obs
      \<and> self_k obs = (case k of None \<Rightarrow> Fin (sqrt 1.2) | Some v \<Rightarrow> v)
      \<and> self_q obs = (case q of None \<Rightarrow> Fin 0.5 | Some v \<Rightarrow> v)
      \<and> self_sigma_s obs = (case sigma_s of None \<Rightarrow> Fin 0.6 | Some v \<Rightarrow> v)
      \<and> self_m obs = (case m of None \<Rightarrow> Fin 8000 | Some v \<Rightarrow> v))
   \<and> (v \<noteq> Fin 0 \<longrightarrow>
        self_m (fst (fit_obs minpack self snrenv pcdata s (Some v))) = v)"
  by (simp add: init_def self_m_fit_obs fit_m_def truthy_Some)

theorem init_no_validation_witness:
  "init None None None None = Inr default_obs
   \<and> Fin 1 \<noteq> Fin 0
   \<and> self_m (fst (fit_obs (\<lambda>func x0. Inr (x0, 1)) default_obs
        [Fin 1, Fin 2, Fin 3] [Fin 10, Fin 20, Fin 30] None (Some (Fin 1)))) = Fin 1"
proof -
  have h: "Fin 1 \<noteq> Fin 0"
    by simp
  note t = init_no_validation [of None None None None "Fin 1" "\<lambda>func x0. Inr (x0, 1)" default_obs
      "[Fin 1, Fin 2, Fin 3]" "[Fin 10, Fin 20, Fin 30]" None]
  from t obtain obs where obs: "init None None None None = Inr obs"
      "self_k obs = Fin (sqrt 1.2)" "self_q obs = Fin 0.5"
      "self_sigma_s obs = Fin 0.6" "self_m obs = Fin 8000"
    by auto
  then have "obs = default_obs"
    by (cases obs) (simp add: default_obs_def)
  with obs(1) have a: "init None None None None = Inr default_obs"
    by simp
  from t h have c: "self_m (fst (fit_obs (\<lambda>func x0. Inr (x0, 1)) default_obs
        [Fin 1, Fin 2, Fin 3] [Fin 10, Fin 20, Fin 30] None (Some (Fin 1)))) = Fin 1"
    by blast
  from a c h show ?thesis
    by blast
qed

text \<open>
  C4 as stated fails: construction with \<open>m = 1\<close>, and with \<open>sigma_s = -1\<close>, returns an
  object holding that value; no error is raised.
\<close>

theorem init_invalid_counterexample:
  "init None None None (Some (Fin 1))
     = Inr \<lparr> self_k = Fin (sqrt 1.2), self_q = Fin 0.5, self_sigma_s = Fin 0.6, self_m = Fin 1 \<rparr>
   \<and> init None None (Some (Fin (- 1))) None
     = Inr \<lparr> self_k = Fin (sqrt 1.2), self_q = Fin 0.5, self_sigma_s = Fin (- 1), self_m = Fin 8000 \<rparr>"
  by (simp add: init_def)

section \<open>Shape validation in the fit\<close>




section \<open>Monotonicity of the transform\<close>




section \<open>The \<open>m\<close> of the fit\<close>



section \<open>Negative metric values\<close>



section \<open>The psychometric function\<close>

text \<open>
  C9.  For every array \<open>x\<close> and scalars \<open>mu\<close> and \<open>sigma \<noteq> 0\<close>, \<open>psy_fn\<close> returns an array
  of the length of \<open>x\<close> whose element \<open>i\<close> is \<open>100 \<cdot> erfc (- (x\<^sub>i - mu) / (\<surd>2 \<cdot> sigma)) / 2\<close>,
  which is \<open>100\<close> times the standard normal distribution function at \<open>(x\<^sub>i - mu) / sigma\<close>;
  and \<open>psy_fn [0] 0 1 = [50]\<close>.
\<close>

theorem psy_fn_formula:
  assumes "sigma \<noteq> Fin 0"
  shows "length (psy_fn x mu sigma) = length x
     \<and> (\<forall>i<length x. psy_fn x mu sigma ! i =
           np_div (np_mul (Fin 100)
             (erfc (np_div (np_neg (np_sub (x ! i) mu)) (np_mul (Fin (sqrt 2)) sigma)))) (Fin 2))
     \<and> psy_fn x mu sigma = map (\<lambda>xi. np_mul (Fin 100) (ndtr_fl (np_div (np_sub xi mu) sigma))) x
     \<and> psy_fn [Fin 0] (Fin 0) (Fin 1) = [Fin 50]"
proof -
  have "psy_fn [Fin 0] (Fin 0) (Fin 1) = [Fin 50]"
    by (simp add: psy_fn_def erf_0)
  then show ?thesis
    by (simp add: psy_fn_def psy_fn_elem [OF assms])
qed

theorem psy_fn_formula_witness:
  "Fin 2 \<noteq> Fin 0
   \<and> psy_fn [Fin 3, PInf, NaN] (Fin 3) (Fin 2) = [Fin 50, Fin 100, NaN]"
proof -
  have h: "Fin 2 \<noteq> Fin 0"
    by simp
  from psy_fn_formula [OF h, of "[Fin 3, PInf, NaN]" "Fin 3"]
  have "psy_fn [Fin 3, PInf, NaN] (Fin 3) (Fin 2)
      = map (\<lambda>xi. np_mul (Fin 100) (ndtr_fl (np_div (np_sub xi (Fin 3)) (Fin 2)))) [Fin 3, PInf, NaN]"
    by blast
  then show ?thesis
    by (simp add: ndtr_0 np_sub_def)
qed

section \<open>Truth tests of the optional arguments\<close>

text \<open>
  C10.  \<open>fit_obs\<close> with \<open>sigma_s = 0.0\<close> is \<open>fit_obs\<close> without \<open>sigma_s\<close>: the start vector
  is \<open>[k, q, sigma_s]\<close> with the object's \<open>sigma_s\<close>, the residual function takes \<open>sigma_s\<close>
  from the trial vector, and the third component of the solution is stored.  Likewise
  \<open>fit_obs\<close> with \<open>m = 0\<close> is \<open>fit_obs\<close> without \<open>m\<close>: the object's \<open>m\<close> is used and kept.
\<close>

theorem fit_obs_truthiness:
  "fit_obs minpack self snrenv pcdata (Some (Fin 0)) m = fit_obs minpack self snrenv pcdata None m
   \<and> fit_p0 self (Some (Fin 0)) = [self_k self, self_q self, self_sigma_s self]
   \<and> fit_errfc snrenv pcdata (Some (Fin 0)) m' = fit_errfc snrenv pcdata None m'
   \<and> fit_store self (Some (Fin 0)) [a, b, c]
        = (self\<lparr>self_k := a, self_q := b, self_sigma_s := c\<rparr>, None)
   \<and> fit_obs minpack self snrenv pcdata sigma_s (Some (Fin 0))
        = fit_obs minpack self snrenv pcdata sigma_s None
   \<and> fit_m self (Some (Fin 0)) = self_m self
   \<and> fit_self self (Some (Fin 0)) = self"
proof -
  have e: "fit_errfc snrenv pcdata (Some (Fin 0)) = fit_errfc snrenv pcdata None"
    by (intro ext) (simp add: fit_errfc_def truthy_zero truthy_None)
  have p: "fit_p0 s (Some (Fin 0)) = fit_p0 s None" for s
    by (simp add: fit_p0_def truthy_zero truthy_None)
  have st: "fit_store s (Some (Fin 0)) = fit_store s None" for s
    by (intro ext) (simp add: fit_store_def truthy_zero truthy_None)
  have m: "fit_m self (Some (Fin 0)) = fit_m self None" "fit_self self (Some (Fin 0)) = fit_self self None"
    by (simp_all add: fit_m_def fit_self_def truthy_zero truthy_None)
  show ?thesis
    by (simp add: fit_obs_def Let_def e p st m split: sum.splits prod.splits)
       (simp add: fit_p0_def fit_m_def fit_self_def fit_store_def truthy_None)
qed

theorem fit_obs_truthiness_witness:
  "fit_obs (\<lambda>func x0. Inr ([Fin 1, Fin 0.5, Fin 0.7], 1)) default_obs
        [Fin 1, Fin 2, Fin 3] [Fin 10, Fin 20, Fin 30] (Some (Fin 0)) (Some (Fin 0))
      = (default_obs\<lparr>self_k := Fin 1, self_q := Fin 0.5, self_sigma_s := Fin 0.7\<rparr>, None)"
proof -
  have "fit_obs (\<lambda>func x0. Inr ([Fin 1, Fin 0.5, Fin 0.7], 1)) default_obs
        [Fin 1, Fin 2, Fin 3] [Fin 10, Fin 20, Fin 30] None None
      = (default_obs\<lparr>self_k := Fin 1, self_q := Fin 0.5, self_sigma_s := Fin 0.7\<rparr>, None)"
    by (simp add: fit_obs_def fit_default_None leastsq_first_evaluation fit_store_def truthy_None)
  then show ?thesis
    using fit_obs_truthiness [of "\<lambda>func x0. Inr ([Fin 1, Fin 0.5, Fin 0.7], 1)" default_obs
        "[Fin 1, Fin 2, Fin 3]" "[Fin 10, Fin 20, Fin 30]" "Some (Fin 0)"]
      fit_obs_truthiness [of "\<lambda>func x0. Inr ([Fin 1, Fin 0.5, Fin 0.7], 1)" default_obs
        "[Fin 1, Fin 2, Fin 3]" "[Fin 10, Fin 20, Fin 30]" None]
    by simp
qed

end
